theory Spec2Isabelle
  imports Complex_Main "HOL-Library.Word" "HOL-Library.AList"
begin

unbundle bit_operations_syntax

section \<open>Errors\<close>

text \<open>Go \<open>error\<close> values: an error with a message, and the three named errors the
  code can meet, \<open>context.Canceled\<close>, \<open>context.DeadlineExceeded\<close> and
  \<open>sql.ErrNoRows\<close>. A nil error is \<open>None\<close>. A panic is a value of its own.\<close>

datatype error = Error string | Canceled | DeadlineExceeded | ErrNoRows

datatype panic = NilPointerDereference

section \<open>Metadata snapshot model (ingest/restore/tidb.go)\<close>

text \<open>
  The types \<open>model.DBInfo\<close>, \<open>model.TableInfo\<close>, \<open>model.ColumnInfo\<close> and
  \<open>model.SchemaState\<close> belong to the target database's own library; only the fields
  that tidb.go reads are kept. A \<open>CIStr\<close> name is represented by the string its
  \<open>String()\<close> method returns.
\<close>

datatype SchemaState =
    StateNone
  | StateDeleteOnly
  | StateWriteOnly
  | StateWriteReorganization
  | StateDeleteReorganization
  | StatePublic

record ColumnInfo =
  col_Name :: string
  Tp :: "8 word"
  Flag :: "64 word"

record IndexInfo =
  idx_Name :: string

record TableInfo =
  tbl_ID :: int
  tbl_Name :: string
  tbl_Columns :: "ColumnInfo list"
  tbl_Indices :: "IndexInfo list"
  tbl_State :: SchemaState
  PKIsHandle :: bool

record DBInfo =
  db_ID :: int
  db_Name :: string
  db_Tables :: "TableInfo list"
  db_State :: SchemaState

text \<open>\<open>TidbTableInfo\<close> and \<open>TidbDBInfo\<close>, the two snapshot structs of tidb.go. The Go map
  \<open>Tables\<close> is an association list with distinct keys, written with \<open>AList.update\<close>
  and read with \<open>map_of\<close>.\<close>

record TidbTableInfo =
  ID :: int
  Name :: string
  Columns :: int
  Indices :: int
  Available :: bool
  core :: TableInfo

record TidbDBInfo =
  dbi_ID :: int
  dbi_Name :: string
  Tables :: "(string \<times> TidbTableInfo) list"
  dbi_Available :: bool

subsection \<open>The target system and the effects of a poll\<close>

text \<open>
  A \<open>TiDBManager\<close> holds the connection to the target. What the target answers to the
  n-th metadata round trip (\<open>GetInfoSchema\<close> followed by \<open>AllSchemas\<close>) is the
  function \<open>infoSchemaAt\<close>: an error, or the list of all databases. The effects of the
  synchronizer are the number of round trips made so far and the sleeps performed
  (durations in nanoseconds, as \<open>time.Duration\<close> counts them). Log lines are not
  modelled.
\<close>

record TiDBManager =
  infoSchemaAt :: "nat \<Rightarrow> error + DBInfo list"

record effects =
  polls :: nat
  sleeps :: "int list"

definition Second :: int where
  "Second = 1000000000"

definition Sleep :: "int \<Rightarrow> effects \<Rightarrow> effects" where
  "Sleep d st = st\<lparr>sleeps := sleeps st @ [d]\<rparr>"

definition GetInfoSchema :: "TiDBManager \<Rightarrow> effects \<Rightarrow> (error + DBInfo list) \<times> effects" where
  "GetInfoSchema timgr st = (infoSchemaAt timgr (polls st), st\<lparr>polls := Suc (polls st)\<rparr>)"

subsection \<open>LoadSchemaInfo\<close>

definition newTidbTableInfo :: "TableInfo \<Rightarrow> TidbTableInfo" where
  "newTidbTableInfo tbl =
     \<lparr>ID = tbl_ID tbl,
      Name = tbl_Name tbl,
      Columns = int (length (tbl_Columns tbl)),
      Indices = int (length (tbl_Indices tbl)),
      Available = (tbl_State tbl = StatePublic),
      core = tbl\<rparr>"

text \<open>The inner loop over \<open>db.Tables\<close>: each table is stored under its name, a later table
  of the same name replacing an earlier one.\<close>

definition loadTables :: "TableInfo list \<Rightarrow> (string \<times> TidbTableInfo) list" where
  "loadTables tbls =
     fold (\<lambda>tbl m. AList.update (tbl_Name tbl) (newTidbTableInfo tbl) m) tbls []"

definition newTidbDBInfo :: "DBInfo \<Rightarrow> TidbDBInfo" where
  "newTidbDBInfo db =
     \<lparr>dbi_ID = db_ID db,
      dbi_Name = db_Name db,
      Tables = loadTables (db_Tables db),
      dbi_Available = (db_State db = StatePublic)\<rparr>"

text \<open>The outer loop over all schemas: it does not stop at the first match, so the last
  database of the requested name is the one returned; \<open>None\<close> is the nil pointer.\<close>

definition findSchema :: "string \<Rightarrow> DBInfo list \<Rightarrow> TidbDBInfo option" where
  "findSchema database schemas =
     fold (\<lambda>db dbInfo. if db_Name db \<noteq> database then dbInfo else Some (newTidbDBInfo db))
       schemas None"

definition LoadSchemaInfo :: "TiDBManager \<Rightarrow> string \<Rightarrow> effects \<Rightarrow> TidbDBInfo option \<times> effects" where
  "LoadSchemaInfo timgr database st =
     (case GetInfoSchema timgr st of
        (Inl err, st') \<Rightarrow> (None, st')
      | (Inr schemas, st') \<Rightarrow> (findSchema database schemas, st'))"

subsection \<open>SyncSchema\<close>

text \<open>The inner \<open>for ... range dbInfo.Tables\<close> loop computes \<open>done\<close>: it is true exactly
  when no table of the snapshot is unavailable, whatever the iteration order of the map.\<close>

definition allAvailable :: "TidbDBInfo \<Rightarrow> bool" where
  "allAvailable dbInfo = list_all (\<lambda>(name, tblInfo). Available tblInfo) (Tables dbInfo)"

text \<open>The \<open>for i := 0; i < 100; i++\<close> loop. Reading \<open>dbInfo.Tables\<close> through a nil
  \<open>dbInfo\<close> panics.\<close>

function SyncSchema_loop ::
  "TiDBManager \<Rightarrow> string \<Rightarrow> nat \<Rightarrow> effects \<Rightarrow> (panic + unit) \<times> effects" where
  "SyncSchema_loop timgr database i st =
     (if i < 100 then
        (case LoadSchemaInfo timgr database st of
           (None, st1) \<Rightarrow> (Inl NilPointerDereference, st1)
         | (Some dbInfo, st1) \<Rightarrow>
             if \<not> allAvailable dbInfo
             then SyncSchema_loop timgr database (i + 1) (Sleep (Second * 5) st1)
             else (Inr (), st1))
      else (Inr (), st))"
  by pat_completeness auto
termination
  by (relation "measure (\<lambda>(timgr, database, i, st). 100 - i)") auto

declare SyncSchema_loop.simps [simp del]

definition SyncSchema ::
  "TiDBManager \<Rightarrow> string \<Rightarrow> effects \<Rightarrow> (panic + TidbDBInfo option) \<times> effects" where
  "SyncSchema timgr database st =
     (case SyncSchema_loop timgr database 0 st of
        (Inl p, st1) \<Rightarrow> (Inl p, st1)
      | (Inr u, st1) \<Rightarrow>
          (case LoadSchemaInfo timgr database st1 of
             (dbInfo, st2) \<Rightarrow> (Inr dbInfo, st2)))"

subsection \<open>What the target reports at a given round trip\<close>

text \<open>\<open>snapshotAt timgr database n\<close> is the snapshot \<open>LoadSchemaInfo\<close> returns when it is the
  n-th round trip to the target. A poll is pending when that snapshot exists and has an
  unavailable table, and ready when it exists and every table is available.\<close>

definition snapshotAt :: "TiDBManager \<Rightarrow> string \<Rightarrow> nat \<Rightarrow> TidbDBInfo option" where
  "snapshotAt timgr database n = fst (LoadSchemaInfo timgr database \<lparr>polls = n, sleeps = []\<rparr>)"

definition pendingAt :: "TiDBManager \<Rightarrow> string \<Rightarrow> nat \<Rightarrow> bool" where
  "pendingAt timgr database n =
     (case snapshotAt timgr database n of None \<Rightarrow> False | Some d \<Rightarrow> \<not> allAvailable d)"

definition readyAt :: "TiDBManager \<Rightarrow> string \<Rightarrow> nat \<Rightarrow> bool" where
  "readyAt timgr database n =
     (case snapshotAt timgr database n of None \<Rightarrow> False | Some d \<Rightarrow> allAvailable d)"

subsection \<open>Fake targets\<close>

text \<open>A database \<open>test\<close> with one table \<open>t\<close> whose state is given; \<open>fakeTarget k\<close> reports
  the table as not yet public for the first \<open>k\<close> round trips and public afterwards,
  \<open>neverReady\<close> never reports it public, and \<open>failingTarget k\<close> fails the metadata read
  from round trip \<open>k\<close> on.\<close>

definition fakeTable :: "SchemaState \<Rightarrow> TableInfo" where
  "fakeTable s =
     \<lparr>tbl_ID = 45, tbl_Name = ''t'',
      tbl_Columns = [\<lparr>col_Name = ''id'', Tp = 3, Flag = 515\<rparr>],
      tbl_Indices = [], tbl_State = s, PKIsHandle = True\<rparr>"

definition fakeDB :: "SchemaState \<Rightarrow> DBInfo" where
  "fakeDB s = \<lparr>db_ID = 7, db_Name = ''test'', db_Tables = [fakeTable s], db_State = StatePublic\<rparr>"

definition fakeTarget :: "nat \<Rightarrow> TiDBManager" where
  "fakeTarget k =
     \<lparr>infoSchemaAt = (\<lambda>n. Inr [fakeDB (if n < k then StateWriteOnly else StatePublic)])\<rparr>"

definition neverReady :: TiDBManager where
  "neverReady = \<lparr>infoSchemaAt = (\<lambda>n. Inr [fakeDB StateWriteOnly])\<rparr>"

definition failingTarget :: "nat \<Rightarrow> TiDBManager" where
  "failingTarget k =
     \<lparr>infoSchemaAt = (\<lambda>n. if n < k then Inr [fakeDB StateWriteOnly]
                            else Inl (Error ''store closed''))\<rparr>"

definition start :: effects where
  "start = \<lparr>polls = 0, sleeps = []\<rparr>"

subsection \<open>Derived predicates of a table snapshot\<close>

text \<open>
  The flag tests \<open>mysql.HasPriKeyFlag\<close> and \<open>mysql.HasAutoIncrementFlag\<close> come from the
  target database's library: a column's flag word has the primary-key bit (value 2) or
  the auto-increment bit (value 512) set. \<open>Flag\<close> is a Go \<open>uint\<close>, 64 bits wide.
\<close>

definition PriKeyFlag :: "64 word" where
  "PriKeyFlag = 2"

definition AutoIncrementFlag :: "64 word" where
  "AutoIncrementFlag = 512"

definition HasPriKeyFlag :: "64 word \<Rightarrow> bool" where
  "HasPriKeyFlag flag = (flag AND PriKeyFlag > 0)"

definition HasAutoIncrementFlag :: "64 word \<Rightarrow> bool" where
  "HasAutoIncrementFlag flag = (flag AND AutoIncrementFlag > 0)"

text \<open>The three predicates of a \<open>TidbTableInfo\<close>. The two loops over
  \<open>tbl.core.Columns\<close> return at the first column that passes the test;
  \<open>WithIntegerPrimaryKey\<close> reads the \<open>PKIsHandle\<close> field of the table definition and
  looks at no column.\<close>

fun WithExplicitPrimaryKey_loop :: "ColumnInfo list \<Rightarrow> bool" where
  "WithExplicitPrimaryKey_loop [] = False"
| "WithExplicitPrimaryKey_loop (col # cols) =
     (if HasPriKeyFlag (Flag col) then True else WithExplicitPrimaryKey_loop cols)"

definition WithExplicitPrimaryKey :: "TidbTableInfo \<Rightarrow> bool" where
  "WithExplicitPrimaryKey tbl = WithExplicitPrimaryKey_loop (tbl_Columns (core tbl))"

definition WithIntegerPrimaryKey :: "TidbTableInfo \<Rightarrow> bool" where
  "WithIntegerPrimaryKey tbl = PKIsHandle (core tbl)"

fun WithAutoIncrPrimaryKey_loop :: "ColumnInfo list \<Rightarrow> bool" where
  "WithAutoIncrPrimaryKey_loop [] = False"
| "WithAutoIncrPrimaryKey_loop (col # cols) =
     (if HasPriKeyFlag (Flag col) \<and> HasAutoIncrementFlag (Flag col) then True
      else WithAutoIncrPrimaryKey_loop cols)"

definition WithAutoIncrPrimaryKey :: "TidbTableInfo \<Rightarrow> bool" where
  "WithAutoIncrPrimaryKey tbl = WithAutoIncrPrimaryKey_loop (tbl_Columns (core tbl))"

text \<open>
  A table "with one integer column flagged as primary key and auto-increment" and a
  table "with no primary-key-flagged column", in the words of the specification:
  the columns flagged as primary key are one column, of an integer type and flagged
  auto-increment, or there is none. The integer column types are the library's
  \<open>TypeTiny\<close> (1), \<open>TypeShort\<close> (2), \<open>TypeLong\<close> (3), \<open>TypeLonglong\<close> (8) and
  \<open>TypeInt24\<close> (9). No function of tidb.go reads the column type.
\<close>

definition isIntegerType :: "8 word \<Rightarrow> bool" where
  "isIntegerType tp = (tp = 1 \<or> tp = 2 \<or> tp = 3 \<or> tp = 8 \<or> tp = 9)"

definition keyColumns :: "TableInfo \<Rightarrow> ColumnInfo list" where
  "keyColumns tbl = filter (\<lambda>col. HasPriKeyFlag (Flag col)) (tbl_Columns tbl)"

definition hasIntAutoIncrKey :: "TableInfo \<Rightarrow> bool" where
  "hasIntAutoIncrKey tbl =
     (case keyColumns tbl of
        [col] \<Rightarrow> isIntegerType (Tp col) \<and> HasAutoIncrementFlag (Flag col)
      | _ \<Rightarrow> False)"

definition hasNoKeyColumn :: "TableInfo \<Rightarrow> bool" where
  "hasNoKeyColumn tbl = list_all (\<lambda>col. \<not> HasPriKeyFlag (Flag col)) (tbl_Columns tbl)"

text \<open>
  Modelled from the spec: the code of the target that builds a table definition and sets
  its \<open>PKIsHandle\<close> field is not under src/. The spec says what the predicate reading
  the field stands for: the table "has a single-column integer primary key usable as a
  row handle". So, in a table definition as the target builds it, the field is set
  exactly when the columns flagged as primary key are one column of an integer type.
\<close>

definition singleIntegerKey :: "TableInfo \<Rightarrow> bool" where
  "singleIntegerKey tbl =
     (case keyColumns tbl of [col] \<Rightarrow> isIntegerType (Tp col) | _ \<Rightarrow> False)"

definition builtByTarget :: "TableInfo \<Rightarrow> bool" where
  "builtByTarget tbl = (PKIsHandle tbl = singleIntegerKey tbl)"

text \<open>An example table without a key, beside \<open>fakeTable\<close>, whose one column is an
  auto-increment integer key (515 = 512 + 2 + 1, the last bit being NOT NULL).\<close>

definition plainTable :: TableInfo where
  "plainTable =
     \<lparr>tbl_ID = 48, tbl_Name = ''p'',
      tbl_Columns = [\<lparr>col_Name = ''v'', Tp = 3, Flag = 0\<rparr>],
      tbl_Indices = [], tbl_State = StatePublic, PKIsHandle = False\<rparr>"

section \<open>Rate-limited writer (package storage)\<close>

text \<open>
  Time is a rational number of seconds. A \<open>context.Context\<close> is the caller's cancellation
  signal: the instant of its deadline, if it has one, and the instant at which the caller
  cancels it, if ever. \<open>ctx_Done ctx now\<close> says that the \<open>Done\<close> channel is closed at
  \<open>now\<close>, \<open>ctx_Err\<close> is \<open>ctx.Err()\<close>.
\<close>

record Context =
  deadline :: "rat option"
  cancelAt :: "rat option"

definition Background :: Context where
  "Background = \<lparr>deadline = None, cancelAt = None\<rparr>"

definition ctx_doneAt :: "Context \<Rightarrow> rat option" where
  "ctx_doneAt ctx =
     (case (deadline ctx, cancelAt ctx) of
        (None, None) \<Rightarrow> None
      | (Some d, None) \<Rightarrow> Some d
      | (None, Some c) \<Rightarrow> Some c
      | (Some d, Some c) \<Rightarrow> Some (min d c))"

definition ctx_Done :: "Context \<Rightarrow> rat \<Rightarrow> bool" where
  "ctx_Done ctx now = (case ctx_doneAt ctx of None \<Rightarrow> False | Some t \<Rightarrow> t \<le> now)"

definition ctx_Err :: "Context \<Rightarrow> rat \<Rightarrow> error option" where
  "ctx_Err ctx now =
     (case (deadline ctx, cancelAt ctx) of
        (None, None) \<Rightarrow> None
      | (Some d, None) \<Rightarrow> if d \<le> now then Some DeadlineExceeded else None
      | (None, Some c) \<Rightarrow> if c \<le> now then Some Canceled else None
      | (Some d, Some c) \<Rightarrow>
          if c \<le> now \<and> c < d then Some Canceled
          else if d \<le> now then Some DeadlineExceeded else None)"

subsection \<open>The token bucket\<close>

text \<open>
  Modelled from the spec: the limiter (\<open>rate.NewLimiter\<close>, \<open>AllowN\<close>, \<open>WaitN\<close> of the
  package golang.org/x/time/rate) is not under src/. The spec describes it as a token
  bucket, "rate-limiting algorithm holding a capacity of tokens refilled at a fixed rate;
  consuming N tokens models permission to transfer N bytes", with the state "(capacity,
  current tokens, last-refill timestamp)", and a wait that "must honor an externally
  supplied cancellation/deadline signal". A new bucket is full. Tokens and seconds are
  exact rationals here, where the library computes with float64 and int64
  nanoseconds; the limit is finite and the limiter has one user at a time.

  \<open>advance\<close> refills the bucket for the time elapsed, up to its capacity. \<open>reserveN\<close>
  takes \<open>n\<close> tokens, going into debt if need be, and answers when the caller may act;
  the reservation fails, and takes nothing, when \<open>n\<close> exceeds the capacity or the wait
  would exceed \<open>maxFutureReserve\<close>. \<open>AllowN\<close> is a reservation that may not wait.
  \<open>CancelAt\<close> gives the tokens of an unused reservation back. \<open>WaitN\<close> reserves and
  then blocks until the time to act, or until the context is done, whichever is first; it
  returns the error, the limiter and the time at which it returns.
\<close>

record Limiter =
  lim_limit :: rat
  lim_burst :: int
  lim_tokens :: rat
  lim_last :: rat

record Reservation =
  r_ok :: bool
  r_tokens :: int
  r_timeToAct :: rat

definition InfDuration :: rat where
  "InfDuration = 9223372036854775807 / 1000000000"

definition durationFromTokens :: "rat \<Rightarrow> rat \<Rightarrow> rat" where
  "durationFromTokens lm tok = (if lm \<le> 0 then InfDuration else tok / lm)"

definition tokensFromDuration :: "rat \<Rightarrow> rat \<Rightarrow> rat" where
  "tokensFromDuration lm d = (if lm \<le> 0 then 0 else d * lm)"

definition NewLimiter :: "rat \<Rightarrow> int \<Rightarrow> Limiter" where
  "NewLimiter r b = \<lparr>lim_limit = r, lim_burst = b, lim_tokens = of_int b, lim_last = 0\<rparr>"

definition advance :: "rat \<Rightarrow> Limiter \<Rightarrow> rat \<times> rat" where
  "advance now lm =
     (let last0 = (if now < lim_last lm then now else lim_last lm);
          elapsed = now - last0;
          delta = tokensFromDuration (lim_limit lm) elapsed;
          toks = lim_tokens lm + delta
      in (last0, if toks > of_int (lim_burst lm) then of_int (lim_burst lm) else toks))"

definition reserveN :: "rat \<Rightarrow> int \<Rightarrow> rat \<Rightarrow> Limiter \<Rightarrow> Reservation \<times> Limiter" where
  "reserveN now n maxFutureReserve lm =
     (case advance now lm of (last0, toks0) \<Rightarrow>
        let toks = toks0 - of_int n;
            waitDuration = (if toks < 0 then durationFromTokens (lim_limit lm) (- toks) else 0);
            ok = (n \<le> lim_burst lm \<and> waitDuration \<le> maxFutureReserve)
        in if ok
           then (\<lparr>r_ok = True, r_tokens = n, r_timeToAct = now + waitDuration\<rparr>,
                 lm\<lparr>lim_last := now, lim_tokens := toks\<rparr>)
           else (\<lparr>r_ok = False, r_tokens = 0, r_timeToAct = 0\<rparr>, lm\<lparr>lim_last := last0\<rparr>))"

definition AllowN :: "rat \<Rightarrow> int \<Rightarrow> Limiter \<Rightarrow> bool \<times> Limiter" where
  "AllowN now n lm = (case reserveN now n 0 lm of (r, lm') \<Rightarrow> (r_ok r, lm'))"

definition CancelAt :: "rat \<Rightarrow> Reservation \<Rightarrow> Limiter \<Rightarrow> Limiter" where
  "CancelAt now r lm =
     (if \<not> r_ok r \<or> r_tokens r = 0 \<or> r_timeToAct r < now then lm
      else case advance now lm of (last0, toks0) \<Rightarrow>
        let toks = toks0 + of_int (r_tokens r)
        in lm\<lparr>lim_last := now,
               lim_tokens := (if toks > of_int (lim_burst lm) then of_int (lim_burst lm) else toks)\<rparr>)"

definition WaitN :: "Context \<Rightarrow> int \<Rightarrow> Limiter \<Rightarrow> rat \<Rightarrow> error option \<times> Limiter \<times> rat" where
  "WaitN ctx n lm now =
     (if n > lim_burst lm then (Some (Error ''rate: Wait(n) exceeds burst''), lm, now)
      else if ctx_Done ctx now then (ctx_Err ctx now, lm, now)
      else
        let waitLimit = (case deadline ctx of Some d \<Rightarrow> d - now | None \<Rightarrow> InfDuration)
        in case reserveN now n waitLimit lm of (r, lm') \<Rightarrow>
          if \<not> r_ok r
          then (Some (Error ''rate: Wait(n) would exceed context deadline''), lm', now)
          else
            let delay = r_timeToAct r - now
            in if delay \<le> 0 then (None, lm', now)
               else (case ctx_doneAt ctx of
                       None \<Rightarrow> (None, lm', now + delay)
                     | Some t \<Rightarrow>
                         if t < now + delay then (ctx_Err ctx t, CancelAt t r lm', t)
                         else (None, lm', now + delay)))"

subsection \<open>The sink and its decorator\<close>

text \<open>
  The world the writers act on: a clock and the state of the storage backend. The
  interfaces \<open>ExternalStorage\<close> and \<open>ExternalFileWriter\<close> are declared elsewhere in the
  package; a \<open>backend\<close> is an implementation of them (its \<open>Create\<close>, and the
  \<open>Write\<close> and \<open>Close\<close> of the files it creates, named by handles of type \<open>'f\<close>). A
  Go \<open>Write\<close> returns a byte count together with an error, so both are kept.
  An \<open>ExternalStorage\<close> value is a plain backend or a \<open>withRatelimit\<close> struct around another
  storage; an \<open>ExternalFileWriter\<close> is a plain file or a \<open>withRateLimitWriter\<close> around
  another writer, with its limiter pointer (\<open>None\<close> is nil). The limiter is mutated by
  \<open>WaitN\<close>, so \<open>Write\<close> returns the writer with its new limiter.
\<close>

type_synonym byte = "8 word"

record 's world =
  clock :: rat
  store :: 's

record ('s, 'f) backend =
  b_Create :: "Context \<Rightarrow> string \<Rightarrow> 's world \<Rightarrow> (error + 'f) \<times> 's world"
  b_Write :: "'f \<Rightarrow> Context \<Rightarrow> byte list \<Rightarrow> 's world \<Rightarrow> (int \<times> error option) \<times> 's world"
  b_Close :: "'f \<Rightarrow> Context \<Rightarrow> 's world \<Rightarrow> error option \<times> 's world"

datatype ('s, 'f) ExternalStorage =
    Plain "('s, 'f) backend"
  | withRatelimit "('s, 'f) ExternalStorage" "64 word"

datatype ('s, 'f) ExternalFileWriter =
    PlainFile "('s, 'f) backend" 'f
  | withRateLimitWriter "('s, 'f) ExternalFileWriter" "Limiter option"

text \<open>
  \<open>rate.Limit(r.Ratelimit)\<close> converts the \<open>uint64\<close> ceiling to a \<open>float64\<close>, which has 53
  significant bits: a value below \<open>2 ^ 53\<close> is kept, a larger one is rounded to the
  nearest multiple of \<open>2 ^ e\<close>, ties to the even one, where \<open>e\<close> is the number of bits
  beyond 53 (at most 11 for a 64-bit value). \<open>float64_of_nat\<close> is the rounded value as a
  number, \<open>Limit\<close> the conversion.
\<close>

definition float64_of_nat :: "nat \<Rightarrow> nat" where
  "float64_of_nat n =
     (if n < 2 ^ 53 then n
      else case find (\<lambda>e. n div 2 ^ e < 2 ^ 53) [1, 2, 3, 4, 5, 6, 7, 8, 9, 10, 11] of
             None \<Rightarrow> n
           | Some e \<Rightarrow>
               let q = n div 2 ^ e; r = n mod 2 ^ e
               in if 2 ^ (e - 1) < r \<or> (r = 2 ^ (e - 1) \<and> odd q)
                  then (q + 1) * 2 ^ e else q * 2 ^ e)"

definition Limit :: "64 word \<Rightarrow> rat" where
  "Limit r = of_nat (float64_of_nat (unat r))"

definition burstLimit :: int where
  "burstLimit = 1000 * 1000 * 1000"

definition WithRatelimit :: "('s, 'f) ExternalStorage \<Rightarrow> 64 word \<Rightarrow> ('s, 'f) ExternalStorage" where
  "WithRatelimit inner ratelimit = (if ratelimit = 0 then inner else withRatelimit inner ratelimit)"

fun Create ::
  "('s, 'f) ExternalStorage \<Rightarrow> Context \<Rightarrow> string \<Rightarrow> 's world
     \<Rightarrow> (error + ('s, 'f) ExternalFileWriter) \<times> 's world" where
  "Create (Plain B) ctx name w =
     (case b_Create B ctx name w of
        (Inl err, w') \<Rightarrow> (Inl err, w')
      | (Inr f, w') \<Rightarrow> (Inr (PlainFile B f), w'))"
| "Create (withRatelimit inner Ratelimit) ctx name w =
     (case Create inner ctx name w of
        (Inl err, w') \<Rightarrow> (Inl err, w')
      | (Inr innerW, w') \<Rightarrow>
          (Inr (withRateLimitWriter innerW
                  (if Ratelimit > 0
                   then Some (snd (AllowN (clock w') burstLimit
                                     (NewLimiter (Limit Ratelimit) burstLimit)))
                   else None)),
           w'))"

fun Write ::
  "('s, 'f) ExternalFileWriter \<Rightarrow> Context \<Rightarrow> byte list \<Rightarrow> 's world
     \<Rightarrow> ((int \<times> error option) \<times> ('s, 'f) ExternalFileWriter) \<times> 's world" where
  "Write (PlainFile B f) ctx p w =
     (case b_Write B f ctx p w of (res, w') \<Rightarrow> ((res, PlainFile B f), w'))"
| "Write (withRateLimitWriter inner limiter) ctx p w =
     (case limiter of
        None \<Rightarrow>
          (case Write inner ctx p w of
             ((res, inner'), w') \<Rightarrow> ((res, withRateLimitWriter inner' None), w'))
      | Some lm \<Rightarrow>
          (case Write inner ctx p w of
             (((n, err), inner'), w') \<Rightarrow>
               if err \<noteq> None then (((n, err), withRateLimitWriter inner' (Some lm)), w')
               else (case WaitN ctx n lm (clock w') of
                       (Some err', lm', now') \<Rightarrow>
                         (((n, Some err'), withRateLimitWriter inner' (Some lm')),
                          w'\<lparr>clock := now'\<rparr>)
                     | (None, lm', now') \<Rightarrow>
                         (((n, err), withRateLimitWriter inner' (Some lm')),
                          w'\<lparr>clock := now'\<rparr>))))"

fun Close ::
  "('s, 'f) ExternalFileWriter \<Rightarrow> Context \<Rightarrow> 's world \<Rightarrow> error option \<times> 's world" where
  "Close (PlainFile B f) ctx w = b_Close B f ctx w"
| "Close (withRateLimitWriter inner limiter) ctx w = Close inner ctx w"

subsection \<open>Sinks and inputs for the examples\<close>

text \<open>\<open>memSink\<close> appends every write to one blob in memory and accepts all of it;
  \<open>fullSink room\<close> accepts a write that fits in \<open>room\<close> bytes and otherwise takes the
  first \<open>room\<close> bytes and fails. \<open>emptyLimiter C now\<close> is the bucket of rate \<open>Limit C\<close> and
  capacity \<open>burstLimit\<close> holding no tokens at time \<open>now\<close>.\<close>

definition memSink :: "(byte list, unit) backend" where
  "memSink =
     \<lparr>b_Create = (\<lambda>ctx name w. (Inr (), w)),
      b_Write = (\<lambda>f ctx p w. ((int (length p), None), w\<lparr>store := store w @ p\<rparr>)),
      b_Close = (\<lambda>f ctx w. (None, w))\<rparr>"

definition fullSink :: "nat \<Rightarrow> (byte list, unit) backend" where
  "fullSink room =
     \<lparr>b_Create = (\<lambda>ctx name w. (Inr (), w)),
      b_Write = (\<lambda>f ctx p w.
         if length p \<le> room then ((int (length p), None), w\<lparr>store := store w @ p\<rparr>)
         else ((int room, Some (Error ''no space left on device'')),
               w\<lparr>store := store w @ take room p\<rparr>)),
      b_Close = (\<lambda>f ctx w. (None, w))\<rparr>"

definition emptyLimiter :: "64 word \<Rightarrow> rat \<Rightarrow> Limiter" where
  "emptyLimiter C now =
     \<lparr>lim_limit = Limit C, lim_burst = burstLimit, lim_tokens = 0, lim_last = now\<rparr>"

definition blobWorld :: "byte list world" where
  "blobWorld = \<lparr>clock = 5, store = []\<rparr>"

definition cancelAfter :: "rat \<Rightarrow> Context" where
  "cancelAfter t = \<lparr>deadline = None, cancelAt = Some t\<rparr>"

section \<open>GC horizon controller (ingest/restore/tidb.go)\<close>

text \<open>
  Modelled from the spec: the target database behind \<open>*sql.DB\<close> is not under src/. The
  spec gives it as a "persisted configuration store" with \<open>readConfigValue(name) -> string\<close>
  and \<open>writeConfigValue(name, value) -> error\<close>, which keeps the value it is given. The code
  reaches it with SQL text, so the model is the table \<open>mysql.tidb\<close> as a list of rows
  (\<open>VARIABLE_NAME\<close>, \<open>VARIABLE_VALUE\<close>) and the two statements the code sends. The
  \<open>UPDATE\<close> carries the value as a quoted string literal, and the store keeps what the
  literal denotes by the SQL rules of the target: a single quote ends the literal, two
  single quotes in a row stand for one, and a backslash escapes the next character. A
  statement in which the literal is not followed by the expected \<open>WHERE\<close> clause is
  rejected. An \<open>UPDATE\<close> that matches no row changes nothing and is no error; a
  \<open>SELECT\<close> that finds no row makes \<open>Scan\<close> return \<open>sql.ErrNoRows\<close>.
\<close>

definition quote :: char where
  "quote = CHR 0x27"

definition backslash :: char where
  "backslash = CHR 0x5C"

record sqlDB =
  tidb_rows :: "(string \<times> string) list"

definition unescape :: "char \<Rightarrow> string" where
  "unescape c =
     (if c = CHR ''0'' then [CHR 0x00]
      else if c = CHR ''b'' then [CHR 0x08]
      else if c = CHR ''n'' then [CHR 0x0A]
      else if c = CHR ''r'' then [CHR 0x0D]
      else if c = CHR ''t'' then [CHR 0x09]
      else if c = CHR ''Z'' then [CHR 0x1A]
      else if c = CHR ''%'' \<or> c = CHR ''_'' then [backslash, c]
      else [c])"

fun sqlStringBody :: "string \<Rightarrow> (string \<times> string) option" where
  "sqlStringBody [] = None"
| "sqlStringBody [c] = (if c = quote then Some ([], []) else None)"
| "sqlStringBody (c # d # cs) =
     (if c = quote then
        (if d = quote then map_option (\<lambda>(v, rest). (quote # v, rest)) (sqlStringBody cs)
         else Some ([], d # cs))
      else if c = backslash then
        map_option (\<lambda>(v, rest). (unescape d @ v, rest)) (sqlStringBody cs)
      else map_option (\<lambda>(v, rest). (c # v, rest)) (sqlStringBody (d # cs)))"

definition gcKey :: string where
  "gcKey = ''tikv_gc_life_time''"

definition whereGCKey :: string where
  "whereGCKey = '' WHERE VARIABLE_NAME = '' @ [quote] @ gcKey @ [quote]"

definition selectGC :: string where
  "selectGC = ''SELECT VARIABLE_VALUE FROM mysql.tidb'' @ whereGCKey"

definition updateGCPrefix :: string where
  "updateGCPrefix = ''UPDATE mysql.tidb SET VARIABLE_VALUE = '' @ [quote]"

definition Exec :: "sqlDB \<Rightarrow> string \<Rightarrow> error option \<times> sqlDB" where
  "Exec db stmt =
     (if take (length updateGCPrefix) stmt = updateGCPrefix then
        (case sqlStringBody (drop (length updateGCPrefix) stmt) of
           None \<Rightarrow> (Some (Error ''syntax error''), db)
         | Some (v, rest) \<Rightarrow>
             if rest = whereGCKey
             then (None, db\<lparr>tidb_rows :=
                               map (\<lambda>(k, old). if k = gcKey then (k, v) else (k, old))
                                 (tidb_rows db)\<rparr>)
             else (Some (Error ''syntax error''), db))
      else (Some (Error ''statement not supported''), db))"

definition QueryRowScan :: "sqlDB \<Rightarrow> string \<Rightarrow> error + string" where
  "QueryRowScan db query =
     (if query = selectGC then
        (case map_of (tidb_rows db) gcKey of None \<Rightarrow> Inl ErrNoRows | Some v \<Rightarrow> Inr v)
      else Inl (Error ''statement not supported''))"

text \<open>The two functions of tidb.go. \<open>fmt.Sprintf\<close> with \<open>'%s'\<close> puts the value between
  two single quotes as it is. On a failed \<open>Scan\<close> the named result \<open>gcLifeTime\<close> keeps
  its zero value, the empty string.\<close>

definition ObtainGCLifeTime :: "sqlDB \<Rightarrow> string \<times> error option" where
  "ObtainGCLifeTime db =
     (case QueryRowScan db
             (''SELECT VARIABLE_VALUE FROM mysql.tidb WHERE VARIABLE_NAME = '' @ [quote]
              @ ''tikv_gc_life_time'' @ [quote]) of
        Inl err \<Rightarrow> ([], Some err)
      | Inr gcLifeTime \<Rightarrow> (gcLifeTime, None))"

definition UpdateGCLifeTime :: "sqlDB \<Rightarrow> string \<Rightarrow> error option \<times> sqlDB" where
  "UpdateGCLifeTime db gcLifeTime =
     Exec db (''UPDATE mysql.tidb SET VARIABLE_VALUE = '' @ [quote] @ gcLifeTime @ [quote]
              @ '' WHERE VARIABLE_NAME = '' @ [quote] @ ''tikv_gc_life_time'' @ [quote])"

text \<open>A configuration table as a running target has it.\<close>

definition gcDB :: sqlDB where
  "gcDB = \<lparr>tidb_rows = [(''bootstrapped'', ''True''), (''tikv_gc_life_time'', ''10m0s'')]\<rparr>"

section \<open>Schema readiness synchronizer: proofs\<close>

lemma LoadSchemaInfo_eq:
  "LoadSchemaInfo timgr database st =
     (snapshotAt timgr database (polls st), st\<lparr>polls := Suc (polls st)\<rparr>)"
  by (simp add: LoadSchemaInfo_def snapshotAt_def GetInfoSchema_def split: sum.splits)

lemma loop_step_pending:
  assumes "i < 100" "snapshotAt timgr database (polls st) = Some d" "\<not> allAvailable d"
  shows "SyncSchema_loop timgr database i st =
         SyncSchema_loop timgr database (Suc i)
           (st\<lparr>polls := Suc (polls st), sleeps := sleeps st @ [Second * 5]\<rparr>)"
  using assms by (subst SyncSchema_loop.simps) (simp add: LoadSchemaInfo_eq Sleep_def)

lemma loop_step_ready:
  assumes "i < 100" "snapshotAt timgr database (polls st) = Some d" "allAvailable d"
  shows "SyncSchema_loop timgr database i st = (Inr (), st\<lparr>polls := Suc (polls st)\<rparr>)"
  using assms by (subst SyncSchema_loop.simps) (simp add: LoadSchemaInfo_eq)

lemma loop_step_nil:
  assumes "i < 100" "snapshotAt timgr database (polls st) = None"
  shows "SyncSchema_loop timgr database i st =
         (Inl NilPointerDereference, st\<lparr>polls := Suc (polls st)\<rparr>)"
  using assms by (subst SyncSchema_loop.simps) (simp add: LoadSchemaInfo_eq)

lemma loop_exhausted:
  "\<not> i < 100 \<Longrightarrow> SyncSchema_loop timgr database i st = (Inr (), st)"
  by (subst SyncSchema_loop.simps) simp

text \<open>\<open>k\<close> pending polls in a row are \<open>k\<close> iterations, each ending in a 5 second sleep.\<close>

lemma loop_pending_run:
  assumes "\<forall>j<k. pendingAt timgr database (polls st + j)" "i + k \<le> 100"
  shows "SyncSchema_loop timgr database i st =
         SyncSchema_loop timgr database (i + k)
           (st\<lparr>polls := polls st + k, sleeps := sleeps st @ replicate k (Second * 5)\<rparr>)"
  using assms
proof (induction k arbitrary: i st)
  case 0
  then show ?case by simp
next
  case (Suc k)
  from Suc.prems(1) have "pendingAt timgr database (polls st)"
    by (metis add.right_neutral zero_less_Suc)
  then obtain d where d: "snapshotAt timgr database (polls st) = Some d" "\<not> allAvailable d"
    by (auto simp: pendingAt_def split: option.splits)
  let ?st1 = "st\<lparr>polls := Suc (polls st), sleeps := sleeps st @ [Second * 5]\<rparr>"
  have step: "SyncSchema_loop timgr database i st = SyncSchema_loop timgr database (Suc i) ?st1"
    using Suc.prems(2) d by (intro loop_step_pending) auto
  have "\<forall>j<k. pendingAt timgr database (polls ?st1 + j)"
    using Suc.prems(1) by (auto simp: less_Suc_eq_0_disj)
  moreover have "Suc i + k \<le> 100" using Suc.prems(2) by simp
  ultimately have "SyncSchema_loop timgr database (Suc i) ?st1 =
      SyncSchema_loop timgr database (Suc i + k)
        (?st1\<lparr>polls := polls ?st1 + k, sleeps := sleeps ?st1 @ replicate k (Second * 5)\<rparr>)"
    by (rule Suc.IH)
  with step show ?case by (simp add: replicate_append_same)
qed

lemma SyncSchema_ready_run:
  assumes k: "k < 100"
    and pend: "\<forall>j<k. pendingAt timgr database (polls st + j)"
    and r1: "readyAt timgr database (polls st + k)"
  shows "SyncSchema timgr database st =
           (Inr (snapshotAt timgr database (polls st + k + 1)),
            st\<lparr>polls := polls st + k + 2, sleeps := sleeps st @ replicate k (Second * 5)\<rparr>)"
proof -
  let ?st1 = "st\<lparr>polls := polls st + k, sleeps := sleeps st @ replicate k (Second * 5)\<rparr>"
  have run: "SyncSchema_loop timgr database 0 st = SyncSchema_loop timgr database (0 + k) ?st1"
    using pend k by (intro loop_pending_run) auto
  from r1 obtain d where d: "snapshotAt timgr database (polls ?st1) = Some d" "allAvailable d"
    by (auto simp: readyAt_def split: option.splits)
  have "SyncSchema_loop timgr database k ?st1 = (Inr (), ?st1\<lparr>polls := Suc (polls ?st1)\<rparr>)"
    using k d by (rule loop_step_ready)
  with run have "SyncSchema_loop timgr database 0 st = (Inr (), ?st1\<lparr>polls := Suc (polls ?st1)\<rparr>)"
    by simp
  then show ?thesis
    by (simp add: SyncSchema_def LoadSchemaInfo_eq)
qed

lemma SyncSchema_exhausted_run:
  assumes pend: "\<forall>j<100. pendingAt timgr database (polls st + j)"
  shows "SyncSchema timgr database st =
           (Inr (snapshotAt timgr database (polls st + 100)),
            st\<lparr>polls := polls st + 101, sleeps := sleeps st @ replicate 100 (Second * 5)\<rparr>)"
proof -
  let ?st1 = "st\<lparr>polls := polls st + 100, sleeps := sleeps st @ replicate 100 (Second * 5)\<rparr>"
  have "SyncSchema_loop timgr database 0 st = SyncSchema_loop timgr database (0 + 100) ?st1"
    using pend by (intro loop_pending_run) auto
  then have "SyncSchema_loop timgr database 0 st = (Inr (), ?st1)"
    by (simp add: loop_exhausted)
  then show ?thesis
    by (simp add: SyncSchema_def LoadSchemaInfo_eq)
qed

lemma SyncSchema_nil_run:
  assumes k: "k < 100"
    and pend: "\<forall>j<k. pendingAt timgr database (polls st + j)"
    and nil: "snapshotAt timgr database (polls st + k) = None"
  shows "SyncSchema timgr database st =
           (Inl NilPointerDereference,
            st\<lparr>polls := polls st + k + 1, sleeps := sleeps st @ replicate k (Second * 5)\<rparr>)"
proof -
  let ?st1 = "st\<lparr>polls := polls st + k, sleeps := sleeps st @ replicate k (Second * 5)\<rparr>"
  have run: "SyncSchema_loop timgr database 0 st = SyncSchema_loop timgr database (0 + k) ?st1"
    using pend k by (intro loop_pending_run) auto
  have "SyncSchema_loop timgr database k ?st1 =
          (Inl NilPointerDereference, ?st1\<lparr>polls := Suc (polls ?st1)\<rparr>)"
    using k nil by (intro loop_step_nil) auto
  with run show ?thesis
    by (simp add: SyncSchema_def)
qed

subsection \<open>The fake targets, evaluated\<close>

lemma allAvailable_fakeDB:
  "allAvailable (newTidbDBInfo (fakeDB s)) = (s = StatePublic)"
  by (simp add: allAvailable_def newTidbDBInfo_def fakeDB_def loadTables_def
      newTidbTableInfo_def fakeTable_def)

lemma snapshotAt_fakeTarget:
  "snapshotAt (fakeTarget k) ''test'' n =
     Some (newTidbDBInfo (fakeDB (if n < k then StateWriteOnly else StatePublic)))"
  by (simp add: snapshotAt_def LoadSchemaInfo_def GetInfoSchema_def fakeTarget_def
      findSchema_def fakeDB_def)

lemma pendingAt_fakeTarget: "pendingAt (fakeTarget k) ''test'' n = (n < k)"
  by (simp add: pendingAt_def snapshotAt_fakeTarget allAvailable_fakeDB)

lemma readyAt_fakeTarget: "readyAt (fakeTarget k) ''test'' n = (\<not> n < k)"
  by (simp add: readyAt_def snapshotAt_fakeTarget allAvailable_fakeDB)

lemma snapshotAt_neverReady:
  "snapshotAt neverReady ''test'' n = Some (newTidbDBInfo (fakeDB StateWriteOnly))"
  by (simp add: snapshotAt_def LoadSchemaInfo_def GetInfoSchema_def neverReady_def
      findSchema_def fakeDB_def)

lemma pendingAt_neverReady: "pendingAt neverReady ''test'' n"
  by (simp add: pendingAt_def snapshotAt_neverReady allAvailable_fakeDB)

lemma snapshotAt_failingTarget:
  "snapshotAt (failingTarget k) ''test'' n =
     (if n < k then Some (newTidbDBInfo (fakeDB StateWriteOnly)) else None)"
  by (simp add: snapshotAt_def LoadSchemaInfo_def GetInfoSchema_def failingTarget_def
      findSchema_def fakeDB_def)

lemma snapshotAt_missing: "snapshotAt (fakeTarget k) ''missing'' n = None"
  by (simp add: snapshotAt_def LoadSchemaInfo_def GetInfoSchema_def fakeTarget_def
      findSchema_def fakeDB_def)

lemma pendingAt_failingTarget: "pendingAt (failingTarget k) ''test'' n = (n < k)"
  by (simp add: pendingAt_def snapshotAt_failingTarget allAvailable_fakeDB)

subsection \<open>Properties of SyncSchema\<close>

text \<open>
  C1 (as amended). When the target reports an unavailable table for the first \<open>k\<close> polls
  (\<open>k < 100\<close>) and every table available from then on, \<open>SyncSchema\<close> returns, without
  error, a snapshot in which every table's availability flag is true, after \<open>k\<close> sleeps
  of 5 seconds and exactly \<open>k + 2\<close> calls of \<open>LoadSchemaInfo\<close>: \<open>k + 1\<close> inside the
  loop, and one more after it. The snapshot returned is the one that last call loaded
  (poll number \<open>k + 1\<close>, counting from 0), not the one the loop checked.
\<close>

theorem SyncSchema_ready_after_k:
  assumes "k < 100"
    and "\<forall>j<k. pendingAt timgr database (polls st + j)"
    and "\<forall>j\<ge>k. readyAt timgr database (polls st + j)"
  shows "\<exists>dbInfo. SyncSchema timgr database st =
           (Inr (Some dbInfo),
            st\<lparr>polls := polls st + k + 2, sleeps := sleeps st @ replicate k (Second * 5)\<rparr>)
         \<and> snapshotAt timgr database (polls st + k + 1) = Some dbInfo
         \<and> allAvailable dbInfo"
proof -
  from assms(3) have r1: "readyAt timgr database (polls st + k)"
    and r2: "readyAt timgr database (polls st + (k + 1))"
    by (simp_all del: add_Suc_right One_nat_def)
  from r2 obtain d where "snapshotAt timgr database (polls st + k + 1) = Some d" "allAvailable d"
    by (auto simp: readyAt_def split: option.splits)
  with SyncSchema_ready_run [OF assms(1,2) r1] show ?thesis by simp
qed

theorem SyncSchema_ready_after_k_witness:
  "\<exists>dbInfo. SyncSchema (fakeTarget 3) ''test'' start =
           (Inr (Some dbInfo),
            \<lparr>polls = 5, sleeps = [5000000000, 5000000000, 5000000000]\<rparr>)
         \<and> snapshotAt (fakeTarget 3) ''test'' 4 = Some dbInfo
         \<and> allAvailable dbInfo"
  using SyncSchema_ready_after_k [of 3 "fakeTarget 3" "''test''" start]
  by (simp add: pendingAt_fakeTarget readyAt_fakeTarget start_def Second_def eval_nat_numeral)

text \<open>
  C1 as stated fails: with the table unavailable at the first poll only (\<open>k = 1\<close>),
  \<open>SyncSchema\<close> has called \<open>LoadSchemaInfo\<close> three times when it returns, not twice.
\<close>

theorem SyncSchema_polls_counterexample:
  "pendingAt (fakeTarget 1) ''test'' 0 \<and> readyAt (fakeTarget 1) ''test'' 1
   \<and> readyAt (fakeTarget 1) ''test'' 2
   \<and> polls (snd (SyncSchema (fakeTarget 1) ''test'' start)) = 3"
  using SyncSchema_ready_run [of 1 "fakeTarget 1" "''test''" start]
  by (simp add: pendingAt_fakeTarget readyAt_fakeTarget start_def)

text \<open>
  C2 (as amended). When the target never reports all tables available, \<open>SyncSchema\<close>
  makes its 100 attempts, each followed by a 5 second sleep (100 sleeps in all), then calls
  \<open>LoadSchemaInfo\<close> once more (101 calls in all) and returns that last snapshot, which
  still shows an unavailable table; no error or panic is raised.
\<close>

theorem SyncSchema_never_ready:
  assumes "\<forall>j. pendingAt timgr database (polls st + j)"
  shows "\<exists>dbInfo. SyncSchema timgr database st =
           (Inr (Some dbInfo),
            st\<lparr>polls := polls st + 101, sleeps := sleeps st @ replicate 100 (Second * 5)\<rparr>)
         \<and> snapshotAt timgr database (polls st + 100) = Some dbInfo
         \<and> \<not> allAvailable dbInfo"
proof -
  from assms have "pendingAt timgr database (polls st + 100)" by blast
  then obtain d where "snapshotAt timgr database (polls st + 100) = Some d" "\<not> allAvailable d"
    by (auto simp: pendingAt_def split: option.splits)
  moreover from assms have "\<forall>j<100. pendingAt timgr database (polls st + j)" by blast
  note SyncSchema_exhausted_run [OF this]
  ultimately show ?thesis by simp
qed

theorem SyncSchema_never_ready_witness:
  "\<exists>dbInfo. SyncSchema neverReady ''test'' start =
           (Inr (Some dbInfo), \<lparr>polls = 101, sleeps = replicate 100 5000000000\<rparr>)
         \<and> snapshotAt neverReady ''test'' 100 = Some dbInfo
         \<and> \<not> allAvailable dbInfo"
  using SyncSchema_never_ready [of neverReady "''test''" start]
  by (simp add: pendingAt_neverReady start_def Second_def)

text \<open>
  C2 as stated fails: against a target that never becomes available, \<open>LoadSchemaInfo\<close>
  has been called 101 times when \<open>SyncSchema\<close> returns, not 100, and 100 sleeps were
  performed, the last of them after the final attempt.
\<close>

theorem SyncSchema_exhausted_counterexample:
  "polls (snd (SyncSchema neverReady ''test'' start)) = 101
   \<and> length (sleeps (snd (SyncSchema neverReady ''test'' start))) = 100"
  using SyncSchema_exhausted_run [of neverReady "''test''" start]
  by (simp add: pendingAt_neverReady start_def)

text \<open>
  C10. Whenever a poll inside the loop gets a nil snapshot from \<open>LoadSchemaInfo\<close> (the
  database does not exist, or the metadata read failed), after \<open>k < 100\<close> polls that saw
  an unavailable table, \<open>SyncSchema\<close> reads \<open>Tables\<close> through the nil pointer and
  panics; with \<open>k = 0\<close> this is the case of a database that is absent at the first poll.
\<close>

theorem SyncSchema_nil_panics:
  assumes "k < 100"
    and "\<forall>j<k. pendingAt timgr database (polls st + j)"
    and "fst (LoadSchemaInfo timgr database
           (st\<lparr>polls := polls st + k, sleeps := sleeps st @ replicate k (Second * 5)\<rparr>)) = None"
  shows "SyncSchema timgr database st =
           (Inl NilPointerDereference,
            st\<lparr>polls := polls st + k + 1, sleeps := sleeps st @ replicate k (Second * 5)\<rparr>)"
  using assms by (intro SyncSchema_nil_run) (simp_all add: LoadSchemaInfo_eq)

theorem SyncSchema_nil_panics_witness:
  "SyncSchema (fakeTarget 0) ''missing'' start =
     (Inl NilPointerDereference, \<lparr>polls = 1, sleeps = []\<rparr>)
   \<and> SyncSchema (failingTarget 2) ''test'' start =
     (Inl NilPointerDereference, \<lparr>polls = 3, sleeps = [5000000000, 5000000000]\<rparr>)"
  using SyncSchema_nil_panics [of 0 "fakeTarget 0" "''missing''" start]
    SyncSchema_nil_panics [of 2 "failingTarget 2" "''test''" start]
  by (simp add: start_def Second_def LoadSchemaInfo_eq snapshotAt_missing
      snapshotAt_failingTarget pendingAt_failingTarget eval_nat_numeral)

subsection \<open>Properties of LoadSchemaInfo\<close>

lemma findSchema_fold:
  "fold (\<lambda>db dbInfo. if db_Name db \<noteq> database then dbInfo else Some (newTidbDBInfo db)) schemas acc =
     (case filter (\<lambda>db. db_Name db = database) schemas of
        [] \<Rightarrow> acc
      | m # ms \<Rightarrow> Some (newTidbDBInfo (last (m # ms))))"
  by (induction schemas arbitrary: acc) (auto split: list.splits)

lemma findSchema_None:
  assumes "database \<notin> db_Name ` set schemas"
  shows "findSchema database schemas = None"
proof -
  from assms have "filter (\<lambda>db. db_Name db = database) schemas = []"
    by (auto simp: filter_empty_conv)
  then show ?thesis by (simp add: findSchema_def findSchema_fold)
qed

lemma findSchema_Some:
  assumes "database \<in> db_Name ` set schemas"
  shows "\<exists>db. db \<in> set schemas \<and> db_Name db = database \<and>
           findSchema database schemas = Some (newTidbDBInfo db)"
proof -
  let ?ms = "filter (\<lambda>db. db_Name db = database) schemas"
  from assms have ne: "?ms \<noteq> []" by (auto simp: filter_empty_conv)
  then have "last ?ms \<in> set ?ms" by (rule last_in_set)
  then have "last ?ms \<in> set schemas" "db_Name (last ?ms) = database" by auto
  moreover from ne have "findSchema database schemas = Some (newTidbDBInfo (last ?ms))"
    by (simp add: findSchema_def findSchema_fold split: list.splits)
  ultimately show ?thesis by blast
qed

lemma map_of_loadTables_fold:
  "map_of (fold (\<lambda>tbl m. AList.update (tbl_Name tbl) (newTidbTableInfo tbl) m) tbls m0) name =
     (case filter (\<lambda>tbl. tbl_Name tbl = name) tbls of
        [] \<Rightarrow> map_of m0 name
      | t # ts \<Rightarrow> Some (newTidbTableInfo (last (t # ts))))"
  by (induction tbls arbitrary: m0) (auto simp: update_conv' split: list.splits)

lemma map_of_loadTables:
  "map_of (loadTables tbls) name =
     (case filter (\<lambda>tbl. tbl_Name tbl = name) tbls of
        [] \<Rightarrow> None
      | t # ts \<Rightarrow> Some (newTidbTableInfo (last (t # ts))))"
  by (simp add: loadTables_def map_of_loadTables_fold split: list.splits)

lemma loadTables_absent:
  assumes "name \<notin> tbl_Name ` set tbls"
  shows "map_of (loadTables tbls) name = None"
proof -
  from assms have "filter (\<lambda>tbl. tbl_Name tbl = name) tbls = []"
    by (auto simp: filter_empty_conv)
  then show ?thesis by (simp add: map_of_loadTables)
qed

lemma loadTables_present:
  assumes "name \<in> tbl_Name ` set tbls"
  shows "\<exists>tbl. tbl \<in> set tbls \<and> tbl_Name tbl = name \<and>
           map_of (loadTables tbls) name = Some (newTidbTableInfo tbl)"
proof -
  let ?ts = "filter (\<lambda>tbl. tbl_Name tbl = name) tbls"
  from assms have ne: "?ts \<noteq> []" by (auto simp: filter_empty_conv)
  then have "last ?ts \<in> set ?ts" by (rule last_in_set)
  then have "last ?ts \<in> set tbls" "tbl_Name (last ?ts) = name" by auto
  moreover from ne have "map_of (loadTables tbls) name = Some (newTidbTableInfo (last ?ts))"
    by (simp add: map_of_loadTables split: list.splits)
  ultimately show ?thesis by blast
qed

lemma loadTables_distinct:
  assumes "distinct (map tbl_Name tbls)" "tbl \<in> set tbls"
  shows "map_of (loadTables tbls) (tbl_Name tbl) = Some (newTidbTableInfo tbl)"
proof -
  from loadTables_present [of "tbl_Name tbl" tbls] assms(2)
  obtain t where t: "t \<in> set tbls" "tbl_Name t = tbl_Name tbl"
    "map_of (loadTables tbls) (tbl_Name tbl) = Some (newTidbTableInfo t)" by auto
  from assms(1) t(1,2) assms(2) have "t = tbl"
    by (meson distinct_map inj_onD)
  with t(3) show ?thesis by simp
qed


text \<open>
  C9. \<open>LoadSchemaInfo\<close> makes one round trip. When the target enumerates its schemas and
  none has the requested name, the result is nil (\<open>None\<close>), not an error. When one has,
  the result is a snapshot of a database \<open>db\<close> of that name, whose availability flag
  says whether \<open>db\<close> is in the public state, and whose table map has an entry for
  exactly the table names of \<open>db\<close>: each entry is built from a table of \<open>db\<close> of that
  name, and its availability flag says whether that table is in the public state.
\<close>

theorem LoadSchemaInfo_result:
  assumes "infoSchemaAt timgr (polls st) = Inr schemas"
  shows "snd (LoadSchemaInfo timgr database st) = st\<lparr>polls := Suc (polls st)\<rparr>
       \<and> (database \<notin> db_Name ` set schemas \<longrightarrow> fst (LoadSchemaInfo timgr database st) = None)
       \<and> (database \<in> db_Name ` set schemas \<longrightarrow>
            (\<exists>db dbInfo. db \<in> set schemas \<and> db_Name db = database
               \<and> fst (LoadSchemaInfo timgr database st) = Some dbInfo
               \<and> dbi_Name dbInfo = database
               \<and> dbi_Available dbInfo = (db_State db = StatePublic)
               \<and> (\<forall>name. case map_of (Tables dbInfo) name of
                      None \<Rightarrow> name \<notin> tbl_Name ` set (db_Tables db)
                    | Some ti \<Rightarrow> Name ti = name \<and> core ti \<in> set (db_Tables db)
                        \<and> tbl_Name (core ti) = name
                        \<and> Available ti = (tbl_State (core ti) = StatePublic))))"
proof (intro conjI impI)
  show "snd (LoadSchemaInfo timgr database st) = st\<lparr>polls := Suc (polls st)\<rparr>"
    by (simp add: LoadSchemaInfo_eq)
next
  assume "database \<notin> db_Name ` set schemas"
  then show "fst (LoadSchemaInfo timgr database st) = None"
    using assms by (simp add: LoadSchemaInfo_def GetInfoSchema_def findSchema_None)
next
  assume "database \<in> db_Name ` set schemas"
  then obtain db where db: "db \<in> set schemas" "db_Name db = database"
    "findSchema database schemas = Some (newTidbDBInfo db)"
    using findSchema_Some by blast
  have tables: "case map_of (Tables (newTidbDBInfo db)) name of
        None \<Rightarrow> name \<notin> tbl_Name ` set (db_Tables db)
      | Some ti \<Rightarrow> Name ti = name \<and> core ti \<in> set (db_Tables db)
          \<and> tbl_Name (core ti) = name
          \<and> Available ti = (tbl_State (core ti) = StatePublic)" for name
  proof (cases "name \<in> tbl_Name ` set (db_Tables db)")
    case True
    from loadTables_present [OF this] show ?thesis
      by (auto simp: newTidbDBInfo_def newTidbTableInfo_def)
  next
    case False
    from loadTables_absent [OF this] False show ?thesis
      by (simp add: newTidbDBInfo_def)
  qed
  have "fst (LoadSchemaInfo timgr database st) = Some (newTidbDBInfo db)"
    using assms db(3) by (simp add: LoadSchemaInfo_def GetInfoSchema_def)
  moreover have "dbi_Name (newTidbDBInfo db) = database"
    "dbi_Available (newTidbDBInfo db) = (db_State db = StatePublic)"
    using db(2) by (simp_all add: newTidbDBInfo_def)
  ultimately show "\<exists>db dbInfo. db \<in> set schemas \<and> db_Name db = database
               \<and> fst (LoadSchemaInfo timgr database st) = Some dbInfo
               \<and> dbi_Name dbInfo = database
               \<and> dbi_Available dbInfo = (db_State db = StatePublic)
               \<and> (\<forall>name. case map_of (Tables dbInfo) name of
                      None \<Rightarrow> name \<notin> tbl_Name ` set (db_Tables db)
                    | Some ti \<Rightarrow> Name ti = name \<and> core ti \<in> set (db_Tables db)
                        \<and> tbl_Name (core ti) = name
                        \<and> Available ti = (tbl_State (core ti) = StatePublic))"
    using db(1,2) tables by blast
qed

theorem LoadSchemaInfo_result_witness:
  "fst (LoadSchemaInfo (fakeTarget 1) ''missing'' start) = None
   \<and> (\<exists>dbInfo ti. fst (LoadSchemaInfo (fakeTarget 1) ''test'' start) = Some dbInfo
         \<and> dbi_Available dbInfo \<and> map_of (Tables dbInfo) ''t'' = Some ti \<and> \<not> Available ti)"
proof -
  let ?schemas = "[fakeDB StateWriteOnly]"
  have env: "infoSchemaAt (fakeTarget 1) (polls start) = Inr ?schemas"
    by (simp add: fakeTarget_def start_def)
  have absent: "fst (LoadSchemaInfo (fakeTarget 1) ''missing'' start) = None"
    using LoadSchemaInfo_result [OF env, of "''missing''"] by (simp add: fakeDB_def)
  have "''test'' \<in> db_Name ` set ?schemas" by (simp add: fakeDB_def)
  with LoadSchemaInfo_result [OF env, of "''test''"]
  obtain db dbInfo where d: "db \<in> set ?schemas"
    "fst (LoadSchemaInfo (fakeTarget 1) ''test'' start) = Some dbInfo"
    "dbi_Available dbInfo = (db_State db = StatePublic)"
    and tbls: "\<forall>name. case map_of (Tables dbInfo) name of
                      None \<Rightarrow> name \<notin> tbl_Name ` set (db_Tables db)
                    | Some ti \<Rightarrow> Name ti = name \<and> core ti \<in> set (db_Tables db)
                        \<and> tbl_Name (core ti) = name
                        \<and> Available ti = (tbl_State (core ti) = StatePublic)"
    by blast
  from d(1) have db: "db = fakeDB StateWriteOnly" by simp
  from tbls [rule_format, of "''t''"] obtain ti
    where ti: "map_of (Tables dbInfo) ''t'' = Some ti" "\<not> Available ti"
    unfolding db by (auto simp: fakeDB_def fakeTable_def split: option.splits)
  from d(3) have "dbi_Available dbInfo" by (simp add: db fakeDB_def)
  with ti have "\<exists>dbInfo ti. fst (LoadSchemaInfo (fakeTarget 1) ''test'' start) = Some dbInfo
         \<and> dbi_Available dbInfo \<and> map_of (Tables dbInfo) ''t'' = Some ti \<and> \<not> Available ti"
    using d(2) by blast
  with absent show ?thesis by blast
qed

section \<open>Derived predicates: proofs\<close>

lemma WithExplicitPrimaryKey_loop_iff:
  "WithExplicitPrimaryKey_loop cols = (\<exists>col \<in> set cols. HasPriKeyFlag (Flag col))"
  by (induction cols) auto

lemma WithAutoIncrPrimaryKey_loop_iff:
  "WithAutoIncrPrimaryKey_loop cols =
     (\<exists>col \<in> set cols. HasPriKeyFlag (Flag col) \<and> HasAutoIncrementFlag (Flag col))"
  by (induction cols) auto

lemma core_newTidbTableInfo: "core (newTidbTableInfo tbl) = tbl"
  by (simp add: newTidbTableInfo_def)

lemma keyColumns_Nil: "hasNoKeyColumn tbl \<Longrightarrow> keyColumns tbl = []"
  by (simp add: hasNoKeyColumn_def keyColumns_def list_all_iff filter_empty_conv)

lemma keyColumns_single:
  assumes "keyColumns tbl = [col]"
  shows "col \<in> set (tbl_Columns tbl)" and "HasPriKeyFlag (Flag col)"
proof -
  have "col \<in> set (keyColumns tbl)" by (simp add: assms)
  then show "col \<in> set (tbl_Columns tbl)" and "HasPriKeyFlag (Flag col)"
    by (simp_all add: keyColumns_def)
qed

text \<open>
  C4. For a table definition as the target builds it: when its primary key is one integer
  column flagged as primary key and auto-increment, the snapshot built from it reports
  explicit primary key, integer primary key and auto-increment primary key all true;
  when no column is flagged as primary key, it reports all three false.
\<close>

theorem primary_key_predicates:
  assumes "builtByTarget tbl"
  shows "(hasIntAutoIncrKey tbl \<longrightarrow>
            WithExplicitPrimaryKey (newTidbTableInfo tbl)
            \<and> WithIntegerPrimaryKey (newTidbTableInfo tbl)
            \<and> WithAutoIncrPrimaryKey (newTidbTableInfo tbl))
       \<and> (hasNoKeyColumn tbl \<longrightarrow>
            \<not> WithExplicitPrimaryKey (newTidbTableInfo tbl)
            \<and> \<not> WithIntegerPrimaryKey (newTidbTableInfo tbl)
            \<and> \<not> WithAutoIncrPrimaryKey (newTidbTableInfo tbl))"
proof (intro conjI impI)
  assume key: "hasIntAutoIncrKey tbl"
  then obtain col where col: "keyColumns tbl = [col]" "isIntegerType (Tp col)"
    "HasAutoIncrementFlag (Flag col)"
    by (auto simp: hasIntAutoIncrKey_def split: list.splits)
  note mem = keyColumns_single [OF col(1)]
  from mem show "WithExplicitPrimaryKey (newTidbTableInfo tbl)"
    by (auto simp: WithExplicitPrimaryKey_def WithExplicitPrimaryKey_loop_iff
        core_newTidbTableInfo)
  from mem col(3) show "WithAutoIncrPrimaryKey (newTidbTableInfo tbl)"
    by (auto simp: WithAutoIncrPrimaryKey_def WithAutoIncrPrimaryKey_loop_iff
        core_newTidbTableInfo)
  from col(1,2) have "singleIntegerKey tbl" by (simp add: singleIntegerKey_def)
  with assms show "WithIntegerPrimaryKey (newTidbTableInfo tbl)"
    by (simp add: WithIntegerPrimaryKey_def core_newTidbTableInfo builtByTarget_def)
next
  assume nokey: "hasNoKeyColumn tbl"
  then show "\<not> WithExplicitPrimaryKey (newTidbTableInfo tbl)"
    by (simp add: WithExplicitPrimaryKey_def WithExplicitPrimaryKey_loop_iff
        core_newTidbTableInfo hasNoKeyColumn_def list_all_iff)
  from nokey show "\<not> WithAutoIncrPrimaryKey (newTidbTableInfo tbl)"
    by (simp add: WithAutoIncrPrimaryKey_def WithAutoIncrPrimaryKey_loop_iff
        core_newTidbTableInfo hasNoKeyColumn_def list_all_iff)
  from keyColumns_Nil [OF nokey] have "\<not> singleIntegerKey tbl"
    by (simp add: singleIntegerKey_def)
  with assms show "\<not> WithIntegerPrimaryKey (newTidbTableInfo tbl)"
    by (simp add: WithIntegerPrimaryKey_def core_newTidbTableInfo builtByTarget_def)
qed

lemma keyColumns_fakeTable:
  "keyColumns (fakeTable s) = [\<lparr>col_Name = ''id'', Tp = 3, Flag = 515\<rparr>]"
  by (simp add: keyColumns_def fakeTable_def HasPriKeyFlag_def PriKeyFlag_def)

lemma fakeTable_key: "hasIntAutoIncrKey (fakeTable s) \<and> builtByTarget (fakeTable s)"
  by (simp add: hasIntAutoIncrKey_def builtByTarget_def singleIntegerKey_def
      keyColumns_fakeTable isIntegerType_def HasAutoIncrementFlag_def AutoIncrementFlag_def)
    (simp add: fakeTable_def)

lemma plainTable_nokey: "hasNoKeyColumn plainTable \<and> builtByTarget plainTable"
  by (simp add: hasNoKeyColumn_def builtByTarget_def singleIntegerKey_def keyColumns_def
      plainTable_def HasPriKeyFlag_def PriKeyFlag_def)

theorem primary_key_predicates_witness:
  "WithExplicitPrimaryKey (newTidbTableInfo (fakeTable StatePublic))
   \<and> WithIntegerPrimaryKey (newTidbTableInfo (fakeTable StatePublic))
   \<and> WithAutoIncrPrimaryKey (newTidbTableInfo (fakeTable StatePublic))
   \<and> \<not> WithExplicitPrimaryKey (newTidbTableInfo plainTable)
   \<and> \<not> WithIntegerPrimaryKey (newTidbTableInfo plainTable)
   \<and> \<not> WithAutoIncrPrimaryKey (newTidbTableInfo plainTable)"
  using primary_key_predicates [of "fakeTable StatePublic"] primary_key_predicates [of plainTable]
    fakeTable_key [of StatePublic] plainTable_nokey
  by simp

section \<open>Rate-limited writer: proofs\<close>











lemma Limit_100: "Limit 100 = 100"
  by (simp add: Limit_def float64_of_nat_def)





lemma Create_memSink: "Create (Plain memSink) ctx name w = (Inr (PlainFile memSink ()), w)"
  by (simp add: memSink_def)

lemma Write_memSink:
  "Write (PlainFile memSink ()) ctx p w =
     (((int (length p), None), PlainFile memSink ()), w\<lparr>store := store w @ p\<rparr>)"
  by (simp add: memSink_def)



text \<open>
  C6. When the inner sink accepts \<open>n\<close> bytes without error and the wait on the limiter
  that follows ends with an error, as it does when the caller's context is cancelled or
  expires, \<open>Write\<close> returns that error together with the count \<open>n\<close> the inner sink
  reported, and the inner write stays done.
\<close>

theorem Write_wait_canceled:
  assumes "Write inner ctx p w = (((n, None), inner'), w')"
    and "WaitN ctx n lm (clock w') = (Some err, lm', now')"
  shows "Write (withRateLimitWriter inner (Some lm)) ctx p w =
           (((n, Some err), withRateLimitWriter inner' (Some lm')), w'\<lparr>clock := now'\<rparr>)"
  using assms by simp

text \<open>A context cancelled three seconds into a wait of ten: 1000 bytes at 100 bytes per
  second on an empty bucket.\<close>

lemma WaitN_canceled_example:
  "WaitN (cancelAfter 8) 1000 (emptyLimiter 100 5) 5 =
     (Some Canceled, (emptyLimiter 100 8)\<lparr>lim_tokens := 300\<rparr>, 8)"
  by (simp add: WaitN_def cancelAfter_def ctx_Done_def ctx_doneAt_def ctx_Err_def reserveN_def
      advance_def tokensFromDuration_def durationFromTokens_def InfDuration_def CancelAt_def
      emptyLimiter_def burstLimit_def Limit_100 Let_def)

theorem Write_wait_canceled_witness:
  "Write (withRateLimitWriter (PlainFile memSink ()) (Some (emptyLimiter 100 5)))
     (cancelAfter 8) (replicate 1000 7) blobWorld =
     (((1000, Some Canceled),
       withRateLimitWriter (PlainFile memSink ())
         (Some ((emptyLimiter 100 8)\<lparr>lim_tokens := 300\<rparr>))),
      \<lparr>clock = 8, store = replicate 1000 7\<rparr>)"
  using Write_wait_canceled [of "PlainFile memSink ()" "cancelAfter 8" "replicate 1000 7"
      blobWorld 1000 "PlainFile memSink ()" "blobWorld\<lparr>store := replicate 1000 7\<rparr>"
      "emptyLimiter 100 5" Canceled "(emptyLimiter 100 8)\<lparr>lim_tokens := 300\<rparr>" 8]
  by (simp add: Write_memSink WaitN_canceled_example blobWorld_def del: Write.simps)

text \<open>
  C7. When the write of the inner sink returns an error, \<open>Write\<close> of the rate-limited
  writer returns the same byte count and the same error, in the world as the inner write
  left it: the limiter is not consulted, its tokens and timestamp are unchanged, and no
  time is spent waiting.
\<close>

theorem Write_inner_error:
  assumes "Write inner ctx p w = (((n, Some err), inner'), w')"
  shows "Write (withRateLimitWriter inner limiter) ctx p w =
           (((n, Some err), withRateLimitWriter inner' limiter), w')"
  using assms by (cases limiter) simp_all

lemma Write_fullSink:
  "Write (PlainFile (fullSink 2) ()) ctx [1, 2, 3, 4, 5] blobWorld =
     (((2, Some (Error ''no space left on device'')), PlainFile (fullSink 2) ()),
      blobWorld\<lparr>store := [1, 2]\<rparr>)"
  by (simp add: fullSink_def blobWorld_def)

theorem Write_inner_error_witness:
  "Write (withRateLimitWriter (PlainFile (fullSink 2) ()) (Some (emptyLimiter 100 5)))
     Background [1, 2, 3, 4, 5] blobWorld =
     (((2, Some (Error ''no space left on device'')),
       withRateLimitWriter (PlainFile (fullSink 2) ()) (Some (emptyLimiter 100 5))),
      \<lparr>clock = 5, store = [1, 2]\<rparr>)"
  using Write_inner_error [OF Write_fullSink, where limiter = "Some (emptyLimiter 100 5)"]
  by (simp add: blobWorld_def del: Write.simps)

text \<open>
  C8. With a ceiling of 0, \<open>WithRatelimit\<close> returns the inner storage itself, so creating a
  blob through the result is creating it through the inner storage: same writer, same
  world, no limiter and no wait.
\<close>

theorem WithRatelimit_zero:
  "WithRatelimit inner 0 = inner
   \<and> Create (WithRatelimit inner 0) ctx name w = Create inner ctx name w"
  by (simp add: WithRatelimit_def)

theorem WithRatelimit_zero_witness:
  "WithRatelimit (Plain memSink) 0 = Plain memSink
   \<and> Create (WithRatelimit (Plain memSink) 0) Background ''blob'' blobWorld =
       (Inr (PlainFile memSink ()), blobWorld)"
  using WithRatelimit_zero [of "Plain memSink" Background "''blob''" blobWorld]
  by (simp add: Create_memSink del: Create.simps)

section \<open>GC horizon controller: proofs\<close>

lemma sqlStringBody_plain:
  assumes "quote \<notin> set X" "backslash \<notin> set X" "rest \<noteq> []" "hd rest \<noteq> quote"
  shows "sqlStringBody (X @ quote # rest) = Some (X, rest)"
  using assms
proof (induction X)
  case Nil
  then show ?case by (cases rest) auto
next
  case (Cons c X)
  then have IH: "sqlStringBody (X @ quote # rest) = Some (X, rest)" by simp
  from Cons.prems have c: "c \<noteq> quote" "c \<noteq> backslash" by auto
  obtain d ds where eq: "X @ quote # rest = d # ds" by (cases "X @ quote # rest") auto
  show ?case using c IH eq by simp
qed

lemma map_of_update_row:
  "map_of (map (\<lambda>(k, old). if k = key then (k, v) else (k, old)) rows) key =
     (if key \<in> fst ` set rows then Some v else None)"
  by (induction rows) auto

text \<open>
  C5 (as amended). For every string \<open>X\<close> that contains no single quote and no backslash,
  on a target whose configuration table has the \<open>tikv_gc_life_time\<close> row,
  \<open>UpdateGCLifeTime\<close> with \<open>X\<close> succeeds and \<open>ObtainGCLifeTime\<close> then returns exactly
  \<open>X\<close>, without error.
\<close>

theorem gc_lifetime_roundtrip:
  assumes "quote \<notin> set X" and "backslash \<notin> set X"
    and "''tikv_gc_life_time'' \<in> fst ` set (tidb_rows db)"
  shows "\<exists>db'. UpdateGCLifeTime db X = (None, db') \<and> ObtainGCLifeTime db' = (X, None)"
proof -
  have tail: "whereGCKey \<noteq> []" "hd whereGCKey \<noteq> quote"
    by (simp_all add: whereGCKey_def quote_def)
  have stmt: "''UPDATE mysql.tidb SET VARIABLE_VALUE = '' @ [quote] @ X @ [quote]
              @ '' WHERE VARIABLE_NAME = '' @ [quote] @ ''tikv_gc_life_time'' @ [quote]
            = updateGCPrefix @ (X @ quote # whereGCKey)"
    by (simp add: updateGCPrefix_def whereGCKey_def gcKey_def)
  have body: "sqlStringBody (X @ quote # whereGCKey) = Some (X, whereGCKey)"
    using assms(1,2) tail by (rule sqlStringBody_plain)
  let ?db' = "db\<lparr>tidb_rows := map (\<lambda>(k, old). if k = gcKey then (k, X) else (k, old))
                                 (tidb_rows db)\<rparr>"
  have upd: "UpdateGCLifeTime db X = (None, ?db')"
    unfolding UpdateGCLifeTime_def stmt by (simp add: Exec_def body)
  have "map_of (tidb_rows ?db') gcKey = Some X"
    using assms(3) by (simp add: map_of_update_row gcKey_def)
  then have "ObtainGCLifeTime ?db' = (X, None)"
    by (simp add: ObtainGCLifeTime_def QueryRowScan_def selectGC_def whereGCKey_def gcKey_def)
  with upd show ?thesis by blast
qed

theorem gc_lifetime_roundtrip_witness:
  "\<exists>db'. UpdateGCLifeTime gcDB ''720h'' = (None, db') \<and> ObtainGCLifeTime db' = (''720h'', None)"
  using gc_lifetime_roundtrip [of "''720h''" gcDB]
  by (simp add: quote_def backslash_def gcDB_def)

text \<open>
  C5 as stated fails. A value with a single quote in it (\<open>10m\<close>, a quote, \<open>0s\<close>) ends
  the string literal early: the statement is rejected and the stored value stays
  \<open>10m0s\<close>. A value with a backslash in it (\<open>1h\<close>, a backslash, the letter n) is
  accepted, and what is read back is \<open>1h\<close> followed by a line feed.
\<close>

theorem gc_lifetime_quote_counterexample:
  "UpdateGCLifeTime gcDB (''10m'' @ [quote] @ ''0s'') = (Some (Error ''syntax error''), gcDB)
   \<and> ObtainGCLifeTime gcDB = (''10m0s'', None)
   \<and> fst (UpdateGCLifeTime gcDB (''1h'' @ [backslash] @ ''n'')) = None
   \<and> ObtainGCLifeTime (snd (UpdateGCLifeTime gcDB (''1h'' @ [backslash] @ ''n'')))
       = (''1h'' @ [CHR 0x0A], None)"
  by (simp add: UpdateGCLifeTime_def ObtainGCLifeTime_def Exec_def QueryRowScan_def
      updateGCPrefix_def selectGC_def whereGCKey_def gcKey_def gcDB_def quote_def backslash_def
      unescape_def)

end
